theory Spec2Isabelle
  imports Main "HOL-Library.Word"
begin

section \<open>JavaScript strings\<close>

text \<open>
  A JavaScript string is a sequence of 16-bit code units. String literals of the source are
  written \<open>js ''...''\<close>. An empty string is falsy, every other string is truthy.
\<close>

type_synonym jschar = "16 word"
type_synonym jstring = "jschar list"

definition js :: "string \<Rightarrow> jstring" where
  "js s = map of_char s"

definition truthy :: "jstring \<Rightarrow> bool" where
  "truthy s \<longleftrightarrow> s \<noteq> []"

text \<open>
  The code units that \<open>String.prototype.trim\<close> strips and that the regular-expression class
  \<open>\s\<close> matches (white space and line terminators); \<open>\S\<close> is the complement.
\<close>

definition isWhiteSpace :: "jschar \<Rightarrow> bool" where
  "isWhiteSpace c \<longleftrightarrow>
     c = 0x0009 \<or> c = 0x000A \<or> c = 0x000B \<or> c = 0x000C \<or> c = 0x000D \<or> c = 0x0020
     \<or> c = 0x00A0 \<or> c = 0x1680 \<or> (0x2000 \<le> c \<and> c \<le> 0x200A)
     \<or> c = 0x2028 \<or> c = 0x2029 \<or> c = 0x202F \<or> c = 0x205F \<or> c = 0x3000 \<or> c = 0xFEFF"

definition trim :: "jstring \<Rightarrow> jstring" where
  "trim s = rev (dropWhile isWhiteSpace (rev (dropWhile isWhiteSpace s)))"

text \<open>\<open>a || b\<close> where \<open>a\<close> is a string that may be undefined.\<close>

definition orElse :: "jstring option \<Rightarrow> jstring \<Rightarrow> jstring" where
  "orElse a b = (case a of None \<Rightarrow> b | Some s \<Rightarrow> if truthy s then s else b)"

section \<open>Regular expressions\<close>

text \<open>
  The fragment of regular expressions the source uses: a sequence of atoms, each a character
  class or a literal code unit, taken once or with the greedy quantifier \<open>+\<close>.
  \<open>matchAt\<close> matches the pattern at the start of the input, trying the longer repetition
  first and backtracking; \<open>test\<close> is \<open>RegExp.prototype.test\<close> for a pattern with no flags:
  it tries every start index from the left.
\<close>

datatype charClass = NonSpace | Lit jschar

datatype atom = Once charClass | Plus charClass

type_synonym regex = "atom list"

fun inClass :: "charClass \<Rightarrow> jschar \<Rightarrow> bool" where
  "inClass NonSpace c = (\<not> isWhiteSpace c)"
| "inClass (Lit l) c = (c = l)"

fun matchAt :: "regex \<Rightarrow> jstring \<Rightarrow> bool" where
  "matchAt [] s = True"
| "matchAt (Once k # r) [] = False"
| "matchAt (Once k # r) (c # cs) = (inClass k c \<and> matchAt r cs)"
| "matchAt (Plus k # r) [] = False"
| "matchAt (Plus k # r) (c # cs) = (inClass k c \<and> (matchAt (Plus k # r) cs \<or> matchAt r cs))"

fun test :: "regex \<Rightarrow> jstring \<Rightarrow> bool" where
  "test r [] = matchAt r []"
| "test r (c # cs) = (matchAt r (c # cs) \<or> test r cs)"

text \<open>The literal \<open>/\S+@\S+\.\S+/\<close> of the employee form.\<close>

definition emailRegex :: regex where
  "emailRegex = [Plus NonSpace, Once (Lit 0x40), Plus NonSpace, Once (Lit 0x2E), Plus NonSpace]"

section \<open>Entities and payloads (services/api.ts)\<close>

datatype status = Pending | Ongoing | Completed

datatype Employee =
  Employee (emp_id: int) (emp_name: jstring) (emp_email: jstring) (emp_department: jstring)
    (emp_position: jstring) (emp_created_at: jstring) (emp_tasks: "Task list option")
and Task =
  Task (task_id: int) (task_title: jstring) (task_description: "jstring option")
    (task_status: status) (task_due_date: "jstring option") (task_employee_id: "int option")
    (task_created_at: jstring) (task_updated_at: jstring) (task_employee: "Employee option")

record LoginCredentials =
  username :: jstring
  password :: jstring

record TokenResponse =
  access_token :: jstring
  token_type :: jstring

record CreateEmployee =
  name :: jstring
  email :: jstring
  department :: jstring
  position :: jstring

record CreateTask =
  title :: jstring
  description :: "jstring option"
  due_date :: "jstring option"
  employee_id :: "int option"

record UpdateTask =
  title :: "jstring option"
  description :: "jstring option"
  status :: "status option"
  due_date :: "jstring option"
  employee_id :: "int option"

text \<open>A \<open>CreateTask\<close> object passed where an \<open>UpdateTask\<close> is expected.\<close>

definition asUpdateTask :: "CreateTask \<Rightarrow> UpdateTask" where
  "asUpdateTask t =
     \<lparr>UpdateTask.title = Some (CreateTask.title t),
      description = CreateTask.description t,
      status = None,
      due_date = CreateTask.due_date t,
      employee_id = CreateTask.employee_id t\<rparr>"

section \<open>The HTTP boundary\<close>

text \<open>
  The server is outside the program: what it answers is a parameter of every operation.
  A call of axios settles either with the response data or with an error; of the error the
  source reads \<open>error.response?.status\<close> and \<open>error.response?.data?.detail\<close>, each
  \<open>None\<close> when the optional chain yields undefined (a network failure has no response).
  Every request issued is appended to the log \<open>sent\<close>; \<open>location_href\<close> is the path last
  assigned to \<open>window.location.href\<close>.
\<close>

datatype httpMethod = GET | POST | PUT | DELETE

datatype endpoint = TokenUrl | EmployeesUrl | EmployeeUrl int | TasksUrl | TaskUrl int

datatype payload =
  NoPayload
  | CredentialsForm LoginCredentials
  | EmployeePayload CreateEmployee
  | CreateTaskPayload CreateTask
  | UpdateTaskPayload UpdateTask

record request =
  httpMethod :: httpMethod
  url :: endpoint
  authorization :: "jstring option"
  body :: payload

record AxiosError =
  response_status :: "nat option"
  response_detail :: "jstring option"

datatype 'a settled = Resolved 'a | Rejected AxiosError

record browser =
  localStorage :: "jstring \<rightharpoonup> jstring"
  location_href :: jstring
  sent :: "request list"

datatype element = LoginPage | ProtectedLayout

text \<open>The route table of App.tsx: the path \<open>/\<close> is the login page, every other path is protected.\<close>

definition route :: "jstring \<Rightarrow> element" where
  "route path = (if path = js ''/'' then LoginPage else ProtectedLayout)"

subsection \<open>apiClient and its interceptors\<close>

definition requestInterceptor :: "browser \<Rightarrow> request \<Rightarrow> request" where
  "requestInterceptor b config =
     (case localStorage b (js ''token'') of
        None \<Rightarrow> config
      | Some token \<Rightarrow>
          if truthy token then config\<lparr>authorization := Some (js ''Bearer '' @ token)\<rparr>
          else config)"

definition responseRejected :: "browser \<Rightarrow> AxiosError \<Rightarrow> browser" where
  "responseRejected b error =
     (if response_status error = Some 401
      then b\<lparr>localStorage := (localStorage b)(js ''token'' := None), location_href := js ''/''\<rparr>
      else b)"

definition apiClient :: "browser \<Rightarrow> request \<Rightarrow> 'a settled \<Rightarrow> browser \<times> 'a settled" where
  "apiClient b config reply =
     (let b1 = b\<lparr>sent := sent b @ [requestInterceptor b config]\<rparr>
      in case reply of
           Resolved response \<Rightarrow> (b1, Resolved response)
         | Rejected error \<Rightarrow> (responseRejected b1 error, Rejected error))"

subsection \<open>ApiService\<close>

definition apiService_login ::
  "browser \<Rightarrow> LoginCredentials \<Rightarrow> TokenResponse settled \<Rightarrow> browser \<times> TokenResponse settled" where
  "apiService_login b credentials reply =
     (let b1 = b\<lparr>sent := sent b @
                [\<lparr>httpMethod = POST, url = TokenUrl, authorization = None,
                  body = CredentialsForm credentials\<rparr>]\<rparr>
      in case reply of
           Rejected error \<Rightarrow> (b1, Rejected error)
         | Resolved response \<Rightarrow>
             (b1\<lparr>localStorage := (localStorage b1)(js ''token'' \<mapsto> access_token response)\<rparr>,
              Resolved response))"

definition apiService_logout :: "browser \<Rightarrow> browser" where
  "apiService_logout b = b\<lparr>localStorage := (localStorage b)(js ''token'' := None)\<rparr>"

definition apiService_isAuthenticated :: "browser \<Rightarrow> bool" where
  "apiService_isAuthenticated b =
     (case localStorage b (js ''token'') of None \<Rightarrow> False | Some token \<Rightarrow> truthy token)"

definition getEmployees :: "browser \<Rightarrow> Employee list settled \<Rightarrow> browser \<times> Employee list settled" where
  "getEmployees b reply =
     apiClient b \<lparr>httpMethod = GET, url = EmployeesUrl, authorization = None, body = NoPayload\<rparr> reply"

definition getEmployee :: "browser \<Rightarrow> int \<Rightarrow> Employee settled \<Rightarrow> browser \<times> Employee settled" where
  "getEmployee b i reply =
     apiClient b \<lparr>httpMethod = GET, url = EmployeeUrl i, authorization = None, body = NoPayload\<rparr> reply"

definition createEmployee ::
  "browser \<Rightarrow> CreateEmployee \<Rightarrow> Employee settled \<Rightarrow> browser \<times> Employee settled" where
  "createEmployee b employee reply =
     apiClient b \<lparr>httpMethod = POST, url = EmployeesUrl, authorization = None,
                  body = EmployeePayload employee\<rparr> reply"

definition updateEmployee ::
  "browser \<Rightarrow> int \<Rightarrow> CreateEmployee \<Rightarrow> Employee settled \<Rightarrow> browser \<times> Employee settled" where
  "updateEmployee b i employee reply =
     apiClient b \<lparr>httpMethod = PUT, url = EmployeeUrl i, authorization = None,
                  body = EmployeePayload employee\<rparr> reply"

definition deleteEmployee :: "browser \<Rightarrow> int \<Rightarrow> unit settled \<Rightarrow> browser \<times> unit settled" where
  "deleteEmployee b i reply =
     apiClient b \<lparr>httpMethod = DELETE, url = EmployeeUrl i, authorization = None,
                  body = NoPayload\<rparr> reply"

definition getTasks :: "browser \<Rightarrow> Task list settled \<Rightarrow> browser \<times> Task list settled" where
  "getTasks b reply =
     apiClient b \<lparr>httpMethod = GET, url = TasksUrl, authorization = None, body = NoPayload\<rparr> reply"

definition getTask :: "browser \<Rightarrow> int \<Rightarrow> Task settled \<Rightarrow> browser \<times> Task settled" where
  "getTask b i reply =
     apiClient b \<lparr>httpMethod = GET, url = TaskUrl i, authorization = None, body = NoPayload\<rparr> reply"

definition createTask :: "browser \<Rightarrow> CreateTask \<Rightarrow> Task settled \<Rightarrow> browser \<times> Task settled" where
  "createTask b task reply =
     apiClient b \<lparr>httpMethod = POST, url = TasksUrl, authorization = None,
                  body = CreateTaskPayload task\<rparr> reply"

definition updateTask :: "browser \<Rightarrow> int \<Rightarrow> UpdateTask \<Rightarrow> Task settled \<Rightarrow> browser \<times> Task settled" where
  "updateTask b i task reply =
     apiClient b \<lparr>httpMethod = PUT, url = TaskUrl i, authorization = None,
                  body = UpdateTaskPayload task\<rparr> reply"

definition deleteTask :: "browser \<Rightarrow> int \<Rightarrow> unit settled \<Rightarrow> browser \<times> unit settled" where
  "deleteTask b i reply =
     apiClient b \<lparr>httpMethod = DELETE, url = TaskUrl i, authorization = None,
                  body = NoPayload\<rparr> reply"

section \<open>Session store (AuthContext)\<close>

record AuthState =
  isAuthenticated :: bool
  loading :: bool

definition AuthProvider_initial :: AuthState where
  "AuthProvider_initial = \<lparr>isAuthenticated = False, loading = True\<rparr>"

definition checkAuth :: "browser \<Rightarrow> AuthState \<Rightarrow> AuthState" where
  "checkAuth b st = st\<lparr>isAuthenticated := apiService_isAuthenticated b, loading := False\<rparr>"

text \<open>\<open>login\<close> of the provider: the promise it returns resolves with no value, or rejects
  with the error of \<open>apiService.login\<close>, thrown again by the catch block.\<close>

definition AuthProvider_login ::
  "browser \<Rightarrow> AuthState \<Rightarrow> jstring \<Rightarrow> jstring \<Rightarrow> TokenResponse settled
     \<Rightarrow> browser \<times> AuthState \<times> unit settled" where
  "AuthProvider_login b st user pass reply =
     (case apiService_login b \<lparr>username = user, password = pass\<rparr> reply of
        (b', Resolved response) \<Rightarrow> (b', st\<lparr>isAuthenticated := True\<rparr>, Resolved ())
      | (b', Rejected err) \<Rightarrow> (b', st, Rejected err))"

definition AuthProvider_logout :: "browser \<Rightarrow> AuthState \<Rightarrow> browser \<times> AuthState" where
  "AuthProvider_logout b st = (apiService_logout b, st\<lparr>isAuthenticated := False\<rparr>)"

section \<open>Employee page\<close>

text \<open>
  A handler is modelled from the event that starts it to the settling of its request, with no
  other handler running in between: the lists it closes over are the lists of the state it
  starts from. \<open>EmployeeFormData\<close> has the four fields of \<open>CreateEmployee\<close>; the form data
  is also what \<open>updateEmployee\<close> is given.
\<close>

type_synonym EmployeeFormData = CreateEmployee

text \<open>\<open>Partial<EmployeeFormData>\<close>: a field is \<open>None\<close> when the object has no such key.\<close>

record EmployeeFormErrors =
  name :: "jstring option"
  email :: "jstring option"
  department :: "jstring option"
  position :: "jstring option"

record EmployeePage =
  employees :: "Employee list"
  loading :: bool
  error :: jstring
  dialogOpen :: bool
  editingEmployee :: "Employee option"
  formData :: EmployeeFormData
  formErrors :: EmployeeFormErrors
  submitting :: bool

definition EmployeePage_initial :: EmployeePage where
  "EmployeePage_initial =
     \<lparr>employees = [], loading = True, error = [], dialogOpen = False, editingEmployee = None,
      formData = \<lparr>CreateEmployee.name = [], CreateEmployee.email = [],
            CreateEmployee.department = [], CreateEmployee.position = []\<rparr>,
      formErrors = \<lparr>name = None, email = None, department = None, position = None\<rparr>,
      submitting = False\<rparr>"

definition EmployeePage_fetchEmployees ::
  "browser \<Rightarrow> EmployeePage \<Rightarrow> Employee list settled \<Rightarrow> browser \<times> EmployeePage" where
  "EmployeePage_fetchEmployees b st reply =
     (case getEmployees b reply of
        (b', Resolved fetched) \<Rightarrow>
          (b', st\<lparr>EmployeePage.employees := fetched, EmployeePage.error := [],
                  EmployeePage.loading := False\<rparr>)
      | (b', Rejected err) \<Rightarrow>
          (b', st\<lparr>EmployeePage.error := js ''Failed to fetch employees'',
                  EmployeePage.loading := False\<rparr>))"

text \<open>\<open>Object.keys(errors).length\<close>\<close>

definition EmployeeFormErrors_keys :: "EmployeeFormErrors \<Rightarrow> nat" where
  "EmployeeFormErrors_keys errors =
     length (filter (\<lambda>field. field \<noteq> None)
       [EmployeeFormErrors.name errors, EmployeeFormErrors.email errors,
        EmployeeFormErrors.department errors, EmployeeFormErrors.position errors])"

text \<open>\<open>validateForm\<close> returns the errors it stores with \<open>setFormErrors\<close> and its result.\<close>

definition EmployeePage_validateForm :: "EmployeeFormData \<Rightarrow> EmployeeFormErrors \<times> bool" where
  "EmployeePage_validateForm fd =
     (let errors0 = \<lparr>name = None, email = None, department = None, position = None\<rparr>;
          errors1 = (if \<not> truthy (trim (CreateEmployee.name fd))
                     then errors0\<lparr>EmployeeFormErrors.name := Some (js ''Name is required'')\<rparr>
                     else errors0);
          errors2 = (if \<not> truthy (trim (CreateEmployee.email fd))
                     then errors1\<lparr>EmployeeFormErrors.email := Some (js ''Email is required'')\<rparr>
                     else if \<not> test emailRegex (CreateEmployee.email fd)
                     then errors1\<lparr>EmployeeFormErrors.email := Some (js ''Invalid email format'')\<rparr>
                     else errors1);
          errors3 = (if \<not> truthy (trim (CreateEmployee.department fd))
                     then errors2\<lparr>EmployeeFormErrors.department := Some (js ''Department is required'')\<rparr>
                     else errors2);
          errors4 = (if \<not> truthy (trim (CreateEmployee.position fd))
                     then errors3\<lparr>EmployeeFormErrors.position := Some (js ''Position is required'')\<rparr>
                     else errors3)
      in (errors4, EmployeeFormErrors_keys errors4 = 0))"

definition handleCreateEmployee :: "EmployeePage \<Rightarrow> EmployeePage" where
  "handleCreateEmployee st =
     st\<lparr>editingEmployee := None,
        EmployeePage.formData := \<lparr>CreateEmployee.name = [], CreateEmployee.email = [],
            CreateEmployee.department = [], CreateEmployee.position = []\<rparr>,
        EmployeePage.formErrors := \<lparr>name = None, email = None, department = None, position = None\<rparr>,
        EmployeePage.dialogOpen := True\<rparr>"

definition handleEditEmployee :: "EmployeePage \<Rightarrow> Employee \<Rightarrow> EmployeePage" where
  "handleEditEmployee st employee =
     st\<lparr>editingEmployee := Some employee,
        EmployeePage.formData :=
          \<lparr>CreateEmployee.name = emp_name employee, CreateEmployee.email = emp_email employee,
           CreateEmployee.department = emp_department employee,
           CreateEmployee.position = emp_position employee\<rparr>,
        EmployeePage.formErrors := \<lparr>name = None, email = None, department = None, position = None\<rparr>,
        EmployeePage.dialogOpen := True\<rparr>"

text \<open>\<open>confirmed\<close> is the answer of \<open>window.confirm\<close>.\<close>

definition handleDeleteEmployee ::
  "browser \<Rightarrow> EmployeePage \<Rightarrow> Employee \<Rightarrow> bool \<Rightarrow> unit settled \<Rightarrow> browser \<times> EmployeePage" where
  "handleDeleteEmployee b st employee confirmed reply =
     (if \<not> confirmed then (b, st)
      else case deleteEmployee b (emp_id employee) reply of
             (b', Resolved _) \<Rightarrow>
               (b', st\<lparr>EmployeePage.employees :=
                         filter (\<lambda>emp. emp_id emp \<noteq> emp_id employee) (EmployeePage.employees st)\<rparr>)
           | (b', Rejected err) \<Rightarrow>
               (b', st\<lparr>EmployeePage.error :=
                         orElse (response_detail err) (js ''Failed to delete employee'')\<rparr>))"

definition EmployeePage_handleSubmit ::
  "browser \<Rightarrow> EmployeePage \<Rightarrow> Employee settled \<Rightarrow> browser \<times> EmployeePage" where
  "EmployeePage_handleSubmit b st reply =
     (let (errors, valid) = EmployeePage_validateForm (EmployeePage.formData st);
          st1 = st\<lparr>EmployeePage.formErrors := errors\<rparr>
      in if \<not> valid then (b, st1)
         else case editingEmployee st of
                Some editing \<Rightarrow>
                  (case updateEmployee b (emp_id editing) (EmployeePage.formData st) reply of
                     (b', Resolved updated) \<Rightarrow>
                       (b', st1\<lparr>EmployeePage.employees :=
                                  map (\<lambda>emp. if emp_id emp = emp_id editing then updated else emp)
                                    (EmployeePage.employees st),
                                EmployeePage.dialogOpen := False, EmployeePage.error := [],
                                EmployeePage.submitting := False\<rparr>)
                   | (b', Rejected err) \<Rightarrow>
                       (b', st1\<lparr>EmployeePage.error :=
                                  orElse (response_detail err) (js ''Failed to save employee''),
                                EmployeePage.submitting := False\<rparr>))
              | None \<Rightarrow>
                  (case createEmployee b (EmployeePage.formData st) reply of
                     (b', Resolved newEmployee) \<Rightarrow>
                       (b', st1\<lparr>EmployeePage.employees := EmployeePage.employees st @ [newEmployee],
                                EmployeePage.dialogOpen := False, EmployeePage.error := [],
                                EmployeePage.submitting := False\<rparr>)
                   | (b', Rejected err) \<Rightarrow>
                       (b', st1\<lparr>EmployeePage.error :=
                                  orElse (response_detail err) (js ''Failed to save employee''),
                                EmployeePage.submitting := False\<rparr>)))"

text \<open>\<open>{error && <Alert severity="error">{error}</Alert>}\<close> of both pages: the banner shown, if any.\<close>

definition errorAlert :: "jstring \<Rightarrow> jstring option" where
  "errorAlert message = (if truthy message then Some message else None)"

section \<open>Task page\<close>

text \<open>
  A \<open>Dayjs\<close> value of the date picker is either a valid date, kept as its ISO-8601 text, or
  an invalid date, on which \<open>toISOString\<close> throws a \<open>RangeError\<close>.
\<close>

datatype Dayjs = ValidDate jstring | InvalidDate

datatype exception = RangeError

fun toISOString :: "Dayjs \<Rightarrow> exception + jstring" where
  "toISOString (ValidDate text) = Inr text"
| "toISOString InvalidDate = Inl RangeError"

text \<open>In \<open>TaskFormData\<close> the field \<open>employee_id\<close> is a number, or \<open>None\<close> for the empty string;
  \<open>due_date\<close> is \<open>None\<close> for null.\<close>

record TaskFormData =
  title :: jstring
  description :: jstring
  employee_id :: "int option"
  due_date :: "Dayjs option"

record TaskFormErrors =
  title :: "jstring option"
  description :: "jstring option"
  employee_id :: "jstring option"
  due_date :: "jstring option"

record TaskPage =
  tasks :: "Task list"
  employees :: "Employee list"
  loading :: bool
  error :: jstring
  dialogOpen :: bool
  editingTask :: "Task option"
  formData :: TaskFormData
  formErrors :: TaskFormErrors
  submitting :: bool

definition TaskPage_initial :: TaskPage where
  "TaskPage_initial =
     \<lparr>tasks = [], employees = [], loading = True, error = [], dialogOpen = False,
      editingTask = None,
      formData = \<lparr>TaskFormData.title = [], TaskFormData.description = [],
                  TaskFormData.employee_id = None, TaskFormData.due_date = None\<rparr>,
      formErrors = \<lparr>title = None, description = None, employee_id = None, due_date = None\<rparr>,
      submitting = False\<rparr>"

definition fetchTasks :: "browser \<Rightarrow> TaskPage \<Rightarrow> Task list settled \<Rightarrow> browser \<times> TaskPage" where
  "fetchTasks b st reply =
     (case getTasks b reply of
        (b', Resolved fetched) \<Rightarrow> (b', st\<lparr>tasks := fetched, error := []\<rparr>)
      | (b', Rejected err) \<Rightarrow> (b', st\<lparr>error := js ''Failed to fetch tasks''\<rparr>))"

definition TaskPage_fetchEmployees ::
  "browser \<Rightarrow> TaskPage \<Rightarrow> Employee list settled \<Rightarrow> browser \<times> TaskPage" where
  "TaskPage_fetchEmployees b st reply =
     (case getEmployees b reply of
        (b', Resolved fetched) \<Rightarrow> (b', st\<lparr>employees := fetched, loading := False\<rparr>)
      | (b', Rejected err) \<Rightarrow>
          (b', st\<lparr>error := js ''Failed to fetch employees'', loading := False\<rparr>))"

definition TaskFormErrors_keys :: "TaskFormErrors \<Rightarrow> nat" where
  "TaskFormErrors_keys errors =
     length (filter (\<lambda>field. field \<noteq> None)
       [title errors, description errors, employee_id errors, due_date errors])"

definition TaskPage_validateForm :: "TaskFormData \<Rightarrow> TaskFormErrors \<times> bool" where
  "TaskPage_validateForm fd =
     (let errors0 = \<lparr>title = None, description = None, employee_id = None, due_date = None\<rparr>;
          errors1 = (if \<not> truthy (trim (TaskFormData.title fd))
                     then errors0\<lparr>title := Some (js ''Title is required'')\<rparr>
                     else errors0)
      in (errors1, TaskFormErrors_keys errors1 = 0))"

definition handleCreateTask :: "TaskPage \<Rightarrow> TaskPage" where
  "handleCreateTask st =
     st\<lparr>editingTask := None,
        formData := \<lparr>TaskFormData.title = [], TaskFormData.description = [],
                     TaskFormData.employee_id = None, TaskFormData.due_date = None\<rparr>,
        formErrors := \<lparr>title = None, description = None, employee_id = None, due_date = None\<rparr>,
        dialogOpen := True\<rparr>"

text \<open>\<open>dayjs\<close> is the date library's parser of a date text.\<close>

definition handleEditTask :: "(jstring \<Rightarrow> Dayjs) \<Rightarrow> TaskPage \<Rightarrow> Task \<Rightarrow> TaskPage" where
  "handleEditTask dayjs st task =
     st\<lparr>editingTask := Some task,
        formData :=
          \<lparr>TaskFormData.title = task_title task,
           TaskFormData.description = orElse (task_description task) [],
           TaskFormData.employee_id =
             (case task_employee_id task of
                None \<Rightarrow> None
              | Some i \<Rightarrow> if i \<noteq> 0 then Some i else None),
           TaskFormData.due_date =
             (case task_due_date task of
                None \<Rightarrow> None
              | Some d \<Rightarrow> if truthy d then Some (dayjs d) else None)\<rparr>,
        formErrors := \<lparr>title = None, description = None, employee_id = None, due_date = None\<rparr>,
        dialogOpen := True\<rparr>"

definition handleDeleteTask ::
  "browser \<Rightarrow> TaskPage \<Rightarrow> Task \<Rightarrow> bool \<Rightarrow> unit settled \<Rightarrow> browser \<times> TaskPage" where
  "handleDeleteTask b st task confirmed reply =
     (if \<not> confirmed then (b, st)
      else case deleteTask b (task_id task) reply of
             (b', Resolved _) \<Rightarrow>
               (b', st\<lparr>tasks := filter (\<lambda>t. task_id t \<noteq> task_id task) (tasks st)\<rparr>)
           | (b', Rejected err) \<Rightarrow>
               (b', st\<lparr>error := orElse (response_detail err) (js ''Failed to delete task'')\<rparr>))"

definition handleStatusUpdate ::
  "browser \<Rightarrow> TaskPage \<Rightarrow> Task \<Rightarrow> status \<Rightarrow> Task settled \<Rightarrow> browser \<times> TaskPage" where
  "handleStatusUpdate b st task newStatus reply =
     (case updateTask b (task_id task)
             \<lparr>UpdateTask.title = None, UpdateTask.description = None,
              UpdateTask.status = Some newStatus, UpdateTask.due_date = None,
              UpdateTask.employee_id = None\<rparr> reply of
        (b', Resolved updated) \<Rightarrow>
          (b', st\<lparr>tasks := map (\<lambda>t. if task_id t = task_id task then updated else t) (tasks st)\<rparr>)
      | (b', Rejected err) \<Rightarrow>
          (b', st\<lparr>error := orElse (response_detail err) (js ''Failed to update task status'')\<rparr>))"

text \<open>The object \<open>taskData\<close> built at the start of the try block; building it throws when the
  due date is invalid.\<close>

definition taskData :: "TaskFormData \<Rightarrow> exception + CreateTask" where
  "taskData fd =
     (case (case TaskFormData.due_date fd of
              None \<Rightarrow> Inr None
            | Some d \<Rightarrow> map_sum (\<lambda>e. e) Some (toISOString d)) of
        Inl e \<Rightarrow> Inl e
      | Inr due \<Rightarrow>
          Inr \<lparr>CreateTask.title = TaskFormData.title fd,
               CreateTask.description =
                 (if truthy (TaskFormData.description fd)
                  then Some (TaskFormData.description fd) else None),
               CreateTask.due_date = due,
               CreateTask.employee_id =
                 (case TaskFormData.employee_id fd of
                    None \<Rightarrow> None
                  | Some i \<Rightarrow> if i \<noteq> 0 then Some i else None)\<rparr>)"

text \<open>An exception that is not an axios error has no \<open>response\<close>: the catch block shows the
  fallback message.\<close>

definition TaskPage_handleSubmit ::
  "browser \<Rightarrow> TaskPage \<Rightarrow> Task settled \<Rightarrow> browser \<times> TaskPage" where
  "TaskPage_handleSubmit b st reply =
     (let (errors, valid) = TaskPage_validateForm (formData st);
          st1 = st\<lparr>formErrors := errors\<rparr>
      in if \<not> valid then (b, st1)
         else case taskData (formData st) of
                Inl e \<Rightarrow>
                  (b, st1\<lparr>error := orElse None (js ''Failed to save task''), submitting := False\<rparr>)
              | Inr payload \<Rightarrow>
                  (case editingTask st of
                     Some editing \<Rightarrow>
                       (case updateTask b (task_id editing) (asUpdateTask payload) reply of
                          (b', Resolved updated) \<Rightarrow>
                            (b', st1\<lparr>tasks := map (\<lambda>t. if task_id t = task_id editing then updated else t)
                                                (tasks st),
                                     dialogOpen := False, error := [], submitting := False\<rparr>)
                        | (b', Rejected err) \<Rightarrow>
                            (b', st1\<lparr>error := orElse (response_detail err) (js ''Failed to save task''),
                                     submitting := False\<rparr>))
                   | None \<Rightarrow>
                       (case createTask b payload reply of
                          (b', Resolved newTask) \<Rightarrow>
                            (b', st1\<lparr>tasks := tasks st @ [newTask],
                                     dialogOpen := False, error := [], submitting := False\<rparr>)
                        | (b', Rejected err) \<Rightarrow>
                            (b', st1\<lparr>error := orElse (response_detail err) (js ''Failed to save task''),
                                     submitting := False\<rparr>))))"

subsection \<open>Rendering of the task cards\<close>

text \<open>A status button carries its label and the arguments its click handler passes to
  \<open>handleStatusUpdate\<close>.\<close>

datatype button = Button (label: jstring) (onClick_task: Task) (onClick_newStatus: status)

definition statusButtons :: "Task \<Rightarrow> button list" where
  "statusButtons task =
     (if task_status task \<noteq> Completed
      then (if task_status task = Pending then [Button (js ''Start'') task Ongoing] else [])
         @ (if task_status task = Ongoing then [Button (js ''Complete'') task Completed] else [])
         @ (if task_status task = Ongoing then [Button (js ''Reset'') task Pending] else [])
      else [])"

record card =
  key :: int
  chip :: status
  buttons :: "button list"

datatype view = Spinner | Page (alert: "jstring option") (cards: "card list")

definition TaskPage_render :: "TaskPage \<Rightarrow> view" where
  "TaskPage_render st =
     (if loading st then Spinner
      else Page (errorAlert (error st))
             (map (\<lambda>task. \<lparr>key = task_id task, chip = task_status task,
                            buttons = statusButtons task\<rparr>) (tasks st)))"

section \<open>Example data\<close>

definition alice :: Employee where
  "alice = Employee 1 (js ''Alice'') (js ''alice@example.com'') (js ''Engineering'')
     (js ''Developer'') (js ''2024-01-01T00:00:00'') None"

definition bob :: Employee where
  "bob = Employee 2 (js ''Bob'') (js ''bob@example.com'') (js ''Sales'')
     (js ''Manager'') (js ''2024-01-02T00:00:00'') None"

definition rob :: Employee where
  "rob = Employee 2 (js ''Rob'') (js ''rob@example.com'') (js ''Sales'')
     (js ''Director'') (js ''2024-01-02T00:00:00'') None"

definition carol :: Employee where
  "carol = Employee 7 (js ''Carol'') (js ''carol@example.com'') (js ''Support'')
     (js ''Agent'') (js ''2024-01-03T00:00:00'') None"

definition report :: Task where
  "report = Task 1 (js ''Report'') None Pending None None
     (js ''2024-02-01T00:00:00'') (js ''2024-02-01T00:00:00'') None"

definition review :: Task where
  "review = Task 2 (js ''Review'') None Ongoing None (Some 1)
     (js ''2024-02-02T00:00:00'') (js ''2024-02-02T00:00:00'') None"

definition release :: Task where
  "release = Task 3 (js ''Release'') None Completed None None
     (js ''2024-02-03T00:00:00'') (js ''2024-02-03T00:00:00'') None"

definition started :: Task where
  "started = Task 9 (js ''Report'') None Ongoing None None
     (js ''2024-02-01T00:00:00'') (js ''2024-02-04T00:00:00'') None"

definition browser0 :: browser where
  "browser0 =
     \<lparr>localStorage = [js ''token'' \<mapsto> js ''t0''], location_href = js ''/tasks'', sent = []\<rparr>"

definition unauthorized :: AxiosError where
  "unauthorized = \<lparr>response_status = Some 401, response_detail = None\<rparr>"

definition employeeForm :: EmployeeFormData where
  "employeeForm =
     \<lparr>CreateEmployee.name = js ''A'', CreateEmployee.email = js ''a@b.co'',
      CreateEmployee.department = js ''D'', CreateEmployee.position = js ''P''\<rparr>"

definition employeePage0 :: EmployeePage where
  "employeePage0 =
     EmployeePage_initial\<lparr>EmployeePage.employees := [alice, bob], EmployeePage.loading := False,
       EmployeePage.dialogOpen := True, EmployeePage.formData := employeeForm\<rparr>"

definition taskForm :: TaskFormData where
  "taskForm =
     \<lparr>TaskFormData.title = js ''T'', TaskFormData.description = [],
      TaskFormData.employee_id = None, TaskFormData.due_date = None\<rparr>"

definition taskPage0 :: TaskPage where
  "taskPage0 =
     TaskPage_initial\<lparr>tasks := [report, review, release], employees := [alice, bob],
       loading := False, dialogOpen := True, formData := taskForm\<rparr>"

section \<open>Properties of the regular-expression matcher\<close>

lemma matchAt_Once:
  "matchAt (Once k # r) s \<longleftrightarrow> (\<exists>c t. s = c # t \<and> inClass k c \<and> matchAt r t)"
  by (cases s) auto

lemma matchAt_Plus_intro:
  "x \<noteq> [] \<Longrightarrow> list_all (inClass k) x \<Longrightarrow> matchAt r t \<Longrightarrow> matchAt (Plus k # r) (x @ t)"
proof (induction x)
  case Nil
  then show ?case by simp
next
  case (Cons c x)
  show ?case
  proof (cases "x = []")
    case True
    with Cons.prems show ?thesis by simp
  next
    case False
    with Cons show ?thesis by simp
  qed
qed

lemma matchAt_Plus_elim:
  "matchAt (Plus k # r) s \<Longrightarrow> \<exists>x t. s = x @ t \<and> x \<noteq> [] \<and> list_all (inClass k) x \<and> matchAt r t"
proof (induction s)
  case Nil
  then show ?case by simp
next
  case (Cons c cs)
  from Cons.prems have k: "inClass k c" and alt: "matchAt (Plus k # r) cs \<or> matchAt r cs"
    by simp_all
  from alt show ?case
  proof
    assume "matchAt (Plus k # r) cs"
    from Cons.IH [OF this] obtain x t
      where xt: "cs = x @ t" "list_all (inClass k) x" "matchAt r t"
      by (elim exE conjE)
    show ?thesis
      by (rule exI [of _ "c # x"], rule exI [of _ t]) (simp add: xt k)
  next
    assume "matchAt r cs"
    then show ?thesis
      by (intro exI [of _ "[c]"] exI [of _ cs]) (simp add: k)
  qed
qed

lemma matchAt_Plus:
  "matchAt (Plus k # r) s \<longleftrightarrow>
     (\<exists>x t. s = x @ t \<and> x \<noteq> [] \<and> list_all (inClass k) x \<and> matchAt r t)"
proof
  assume "matchAt (Plus k # r) s"
  then show "\<exists>x t. s = x @ t \<and> x \<noteq> [] \<and> list_all (inClass k) x \<and> matchAt r t"
    by (rule matchAt_Plus_elim)
next
  assume "\<exists>x t. s = x @ t \<and> x \<noteq> [] \<and> list_all (inClass k) x \<and> matchAt r t"
  then obtain x t where "s = x @ t" "x \<noteq> []" "list_all (inClass k) x" "matchAt r t"
    by (elim exE conjE)
  then show "matchAt (Plus k # r) s"
    by (simp add: matchAt_Plus_intro)
qed

lemma test_intro: "matchAt r t \<Longrightarrow> test r (u @ t)"
proof (induction u)
  case Nil
  then show ?case by (cases t) simp_all
next
  case (Cons c u)
  then show ?case by simp
qed

lemma test_elim: "test r s \<Longrightarrow> \<exists>u t. s = u @ t \<and> matchAt r t"
proof (induction s)
  case Nil
  then show ?case by simp
next
  case (Cons c cs)
  from Cons.prems have "matchAt r (c # cs) \<or> test r cs" by simp
  then show ?case
  proof
    assume "matchAt r (c # cs)"
    then show ?thesis
      by (intro exI [of _ "[]"] exI [of _ "c # cs"]) simp
  next
    assume "test r cs"
    from Cons.IH [OF this] obtain u t where ut: "cs = u @ t" "matchAt r t"
      by (elim exE conjE)
    show ?thesis
      by (rule exI [of _ "c # u"], rule exI [of _ t]) (simp add: ut)
  qed
qed

lemma inClass_NonSpace: "inClass NonSpace = (\<lambda>c. \<not> isWhiteSpace c)"
  by (rule ext) simp

lemma test_emailRegex_elim:
  assumes "test emailRegex s"
  shows "\<exists>u x y z w. s = u @ x @ [0x40] @ y @ [0x2E] @ z @ w
        \<and> x \<noteq> [] \<and> y \<noteq> [] \<and> z \<noteq> []
        \<and> list_all (\<lambda>c. \<not> isWhiteSpace c) (x @ y @ z)"
proof -
  from test_elim [OF assms] obtain u t where s: "s = u @ t" and m: "matchAt emailRegex t"
    by (elim exE conjE)
  from m obtain x t1 where x: "t = x @ t1" "x \<noteq> []" "list_all (inClass NonSpace) x"
    and m1: "matchAt [Once (Lit 0x40), Plus NonSpace, Once (Lit 0x2E), Plus NonSpace] t1"
    unfolding emailRegex_def by (auto dest: matchAt_Plus_elim)
  from m1 obtain t2 where t1: "t1 = 0x40 # t2"
    and m2: "matchAt [Plus NonSpace, Once (Lit 0x2E), Plus NonSpace] t2"
    by (auto simp: matchAt_Once)
  from m2 obtain y t3 where y: "t2 = y @ t3" "y \<noteq> []" "list_all (inClass NonSpace) y"
    and m3: "matchAt [Once (Lit 0x2E), Plus NonSpace] t3"
    by (auto dest: matchAt_Plus_elim)
  from m3 obtain t4 where t3: "t3 = 0x2E # t4" and m4: "matchAt [Plus NonSpace] t4"
    by (auto simp: matchAt_Once)
  from m4 obtain z w where z: "t4 = z @ w" "z \<noteq> []" "list_all (inClass NonSpace) z"
    by (auto dest: matchAt_Plus_elim)
  show ?thesis
    by (rule exI [of _ u], rule exI [of _ x], rule exI [of _ y], rule exI [of _ z],
        rule exI [of _ w]) (use s x t1 y t3 z in \<open>simp add: inClass_NonSpace\<close>)
qed

lemma test_emailRegex_intro:
  assumes "x \<noteq> []" "y \<noteq> []" "z \<noteq> []" "list_all (\<lambda>c. \<not> isWhiteSpace c) (x @ y @ z)"
  shows "test emailRegex (u @ x @ [0x40] @ y @ [0x2E] @ z @ w)"
proof -
  from assms have cls: "list_all (inClass NonSpace) x" "list_all (inClass NonSpace) y"
    "list_all (inClass NonSpace) z"
    by (simp_all add: inClass_NonSpace)
  have "matchAt [Plus NonSpace] (z @ w)"
    using assms(3) cls(3) by (simp add: matchAt_Plus_intro)
  then have "matchAt [Once (Lit 0x2E), Plus NonSpace] ([0x2E] @ z @ w)"
    by simp
  then have "matchAt [Plus NonSpace, Once (Lit 0x2E), Plus NonSpace] (y @ [0x2E] @ z @ w)"
    by (rule matchAt_Plus_intro [OF assms(2) cls(2)])
  then have "matchAt [Once (Lit 0x40), Plus NonSpace, Once (Lit 0x2E), Plus NonSpace]
               ([0x40] @ y @ [0x2E] @ z @ w)"
    by simp
  then have "matchAt emailRegex (x @ [0x40] @ y @ [0x2E] @ z @ w)"
    unfolding emailRegex_def by (rule matchAt_Plus_intro [OF assms(1) cls(1)])
  then show ?thesis by (rule test_intro)
qed

lemma dropWhile_all: "list_all P (dropWhile P s) \<Longrightarrow> dropWhile P s = []"
  by (induction s) (auto split: if_splits)

lemma trim_Nil: "trim s = [] \<longleftrightarrow> list_all isWhiteSpace s"
proof
  assume "trim s = []"
  then have "dropWhile isWhiteSpace (rev (dropWhile isWhiteSpace s)) = []"
    by (simp add: trim_def)
  then have "list_all isWhiteSpace (dropWhile isWhiteSpace s)"
    by (simp add: list_all_iff)
  then have "dropWhile isWhiteSpace s = []" by (rule dropWhile_all)
  then show "list_all isWhiteSpace s"
    by (simp add: list_all_iff)
next
  assume "list_all isWhiteSpace s"
  then have "dropWhile isWhiteSpace s = []"
    by (induction s) simp_all
  then show "trim s = []" by (simp add: trim_def del: dropWhile_eq_Nil_conv)
qed

section \<open>Auxiliary facts about the handlers\<close>

lemma truthy_js: "truthy (js s) \<longleftrightarrow> s \<noteq> []"
  by (simp add: truthy_def js_def)

lemma truthy_orElse: "truthy fallback \<Longrightarrow> truthy (orElse detail fallback)"
  by (simp add: orElse_def split: option.splits)

lemma errorAlert_truthy: "truthy message \<Longrightarrow> errorAlert message = Some message"
  by (simp add: errorAlert_def)

lemma truthy_trim: "truthy (trim s) \<longleftrightarrow> \<not> list_all isWhiteSpace s"
  by (simp add: truthy_def trim_Nil)

lemma replace_nth:
  "i < length xs \<Longrightarrow>
     map (\<lambda>e. if f e = t then u else e) xs ! i = (if f (xs ! i) = t then u else xs ! i)"
  by simp

lemma replace_absent:
  "\<forall>e\<in>set xs. f e \<noteq> t \<Longrightarrow> map (\<lambda>e. if f e = t then u else e) xs = xs"
  by (induction xs) simp_all

lemma EmployeePage_validateForm_valid:
  "snd (EmployeePage_validateForm fd) \<longleftrightarrow>
     truthy (trim (CreateEmployee.name fd)) \<and> truthy (trim (CreateEmployee.email fd))
     \<and> test emailRegex (CreateEmployee.email fd)
     \<and> truthy (trim (CreateEmployee.department fd))
     \<and> truthy (trim (CreateEmployee.position fd))"
  by (simp add: EmployeePage_validateForm_def EmployeeFormErrors_keys_def Let_def)

lemma TaskPage_validateForm_valid:
  "snd (TaskPage_validateForm fd) \<longleftrightarrow> truthy (trim (TaskFormData.title fd))"
  by (simp add: TaskPage_validateForm_def TaskFormErrors_keys_def Let_def)

lemma taskData_Inr:
  "TaskFormData.due_date fd \<noteq> Some InvalidDate \<Longrightarrow> \<exists>p. taskData fd = Inr p"
  by (cases "TaskFormData.due_date fd"; cases "the (TaskFormData.due_date fd)")
     (simp_all add: taskData_def)

lemma employee_update_list:
  assumes "snd (EmployeePage_validateForm (EmployeePage.formData st))"
    and "editingEmployee st = Some editing"
  shows "EmployeePage.employees (snd (EmployeePage_handleSubmit b st (Resolved updated))) =
           map (\<lambda>emp. if emp_id emp = emp_id editing then updated else emp)
             (EmployeePage.employees st)"
  using assms
  by (simp add: EmployeePage_handleSubmit_def updateEmployee_def apiClient_def Let_def
      case_prod_beta)

lemma employee_create_list:
  assumes "snd (EmployeePage_validateForm (EmployeePage.formData st))"
    and "editingEmployee st = None"
  shows "EmployeePage.employees (snd (EmployeePage_handleSubmit b st (Resolved newEmployee))) =
           EmployeePage.employees st @ [newEmployee]"
  using assms
  by (simp add: EmployeePage_handleSubmit_def createEmployee_def apiClient_def Let_def
      case_prod_beta)

lemma task_update_list:
  assumes "snd (TaskPage_validateForm (formData st))"
    and "TaskFormData.due_date (formData st) \<noteq> Some InvalidDate"
    and "editingTask st = Some editing"
  shows "tasks (snd (TaskPage_handleSubmit b st (Resolved updated))) =
           map (\<lambda>t. if task_id t = task_id editing then updated else t) (tasks st)"
proof -
  from taskData_Inr [OF assms(2)] obtain p where "taskData (formData st) = Inr p" ..
  with assms(1,3) show ?thesis
    by (simp add: TaskPage_handleSubmit_def updateTask_def apiClient_def Let_def
        case_prod_beta)
qed

lemma task_create_list:
  assumes "snd (TaskPage_validateForm (formData st))"
    and "TaskFormData.due_date (formData st) \<noteq> Some InvalidDate"
    and "editingTask st = None"
  shows "tasks (snd (TaskPage_handleSubmit b st (Resolved newTask))) = tasks st @ [newTask]"
proof -
  from taskData_Inr [OF assms(2)] obtain p where "taskData (formData st) = Inr p" ..
  with assms(1,3) show ?thesis
    by (simp add: TaskPage_handleSubmit_def createTask_def apiClient_def Let_def
        case_prod_beta)
qed

lemma status_update_list:
  "tasks (snd (handleStatusUpdate b st task newStatus (Resolved updated))) =
     map (\<lambda>t. if task_id t = task_id task then updated else t) (tasks st)"
  by (simp add: handleStatusUpdate_def updateTask_def apiClient_def Let_def)

lemma employeeForm_valid: "snd (EmployeePage_validateForm employeeForm)"
proof -
  have "test emailRegex ([] @ [0x61] @ [0x40] @ [0x62] @ [0x2E] @ [0x63, 0x6F] @ [])"
    by (rule test_emailRegex_intro) (simp_all add: isWhiteSpace_def)
  then have "test emailRegex (js ''a@b.co'')"
    by (simp add: js_def)
  then show ?thesis
    by (simp add: EmployeePage_validateForm_valid employeeForm_def truthy_trim js_def
        isWhiteSpace_def)
qed

lemma taskForm_valid: "snd (TaskPage_validateForm taskForm)"
  by (simp add: TaskPage_validateForm_valid taskForm_def truthy_trim js_def isWhiteSpace_def)

lemma employeePage0_editing:
  "snd (EmployeePage_validateForm
          (EmployeePage.formData (employeePage0\<lparr>editingEmployee := x\<rparr>)))"
  using employeeForm_valid by (simp add: employeePage0_def)

lemma taskPage0_editing:
  "snd (TaskPage_validateForm (formData (taskPage0\<lparr>editingTask := x\<rparr>)))
   \<and> TaskFormData.due_date (formData (taskPage0\<lparr>editingTask := x\<rparr>)) \<noteq> Some InvalidDate"
  using taskForm_valid by (simp add: taskPage0_def taskForm_def)

lemma email_error_None:
  "EmployeeFormErrors.email (fst (EmployeePage_validateForm fd)) = None \<longleftrightarrow>
     truthy (trim (CreateEmployee.email fd)) \<and> test emailRegex (CreateEmployee.email fd)"
  by (simp add: EmployeePage_validateForm_def Let_def)

lemma email_error_Invalid:
  "truthy (trim (CreateEmployee.email fd)) \<Longrightarrow> \<not> test emailRegex (CreateEmployee.email fd) \<Longrightarrow>
     EmployeeFormErrors.email (fst (EmployeePage_validateForm fd)) = Some (js ''Invalid email format'')"
  by (simp add: EmployeePage_validateForm_def Let_def)

lemma test_emailRegex_at: "test emailRegex s \<Longrightarrow> 0x40 \<in> set s"
  by (drule test_emailRegex_elim) auto

lemma not_an_email_rejected:
  "truthy (trim (js ''not-an-email''))" "\<not> test emailRegex (js ''not-an-email'')"
proof -
  show "truthy (trim (js ''not-an-email''))"
    by (simp add: truthy_trim js_def isWhiteSpace_def)
  have "0x40 \<notin> set (js ''not-an-email'')"
    by (simp add: js_def)
  then show "\<not> test emailRegex (js ''not-an-email'')"
    using test_emailRegex_at by blast
qed

lemma a_b_co_accepted:
  "truthy (trim (js ''a@b.co''))" "test emailRegex (js ''a@b.co'')"
proof -
  show "truthy (trim (js ''a@b.co''))"
    by (simp add: truthy_trim js_def isWhiteSpace_def)
  have "test emailRegex ([] @ [0x61] @ [0x40] @ [0x62] @ [0x2E] @ [0x63, 0x6F] @ [])"
    by (rule test_emailRegex_intro) (simp_all add: isWhiteSpace_def)
  then show "test emailRegex (js ''a@b.co'')"
    by (simp add: js_def)
qed

lemma shape_not_blank:
  assumes "s = u @ x @ [0x40] @ rest"
  shows "truthy (trim s)"
proof -
  have "\<not> isWhiteSpace 0x40" by (simp add: isWhiteSpace_def)
  then have "\<not> list_all isWhiteSpace s"
    using assms by (auto simp: list_all_iff)
  then show ?thesis by (simp add: truthy_trim)
qed

section \<open>Task status buttons\<close>

text \<open>
  Claim C1. For every task card rendered in the task list, the status buttons shown are a
  function of the task's status alone: a pending task shows only Start (to ongoing), an
  ongoing task shows exactly Complete (to completed) and Reset (to pending), and a completed
  task shows no status button.
\<close>

theorem status_buttons_by_status:
  assumes "\<not> loading st"
  shows "map buttons (cards (TaskPage_render st)) =
           map (\<lambda>task. case task_status task of
                          Pending \<Rightarrow> [Button (js ''Start'') task Ongoing]
                        | Ongoing \<Rightarrow> [Button (js ''Complete'') task Completed,
                                      Button (js ''Reset'') task Pending]
                        | Completed \<Rightarrow> [])
             (tasks st)"
  using assms by (simp add: TaskPage_render_def statusButtons_def split: status.splits)

theorem status_buttons_by_status_witness:
  "\<not> loading taskPage0 \<and>
   map buttons (cards (TaskPage_render taskPage0)) =
     [[Button (js ''Start'') report Ongoing],
      [Button (js ''Complete'') review Completed, Button (js ''Reset'') review Pending],
      []]"
proof -
  have h: "\<not> loading taskPage0"
    by (simp add: taskPage0_def)
  have t: "tasks taskPage0 = [report, review, release]"
    by (simp add: taskPage0_def)
  show ?thesis
    using status_buttons_by_status [OF h] h
    by (simp add: t report_def review_def release_def)
qed

section \<open>Authentication failures\<close>

text \<open>
  Claim C2. Whenever a request made through the API client is rejected with HTTP status
  401, the stored token is removed from local storage, the browser is sent to the login
  route, and the rejection is handed to the caller: exactly one request has been issued,
  nothing is sent again.
\<close>

theorem unauthorized_clears_token_and_redirects:
  assumes "response_status err = Some 401"
  shows "let loggedOut = (\<lambda>b'. localStorage b' (js ''token'') = None
                              \<and> location_href b' = js ''/''
                              \<and> route (location_href b') = LoginPage
                              \<and> length (sent b') = Suc (length (sent b)))
         in loggedOut (fst (getEmployees b (Rejected err)))
          \<and> snd (getEmployees b (Rejected err)) = Rejected err
          \<and> loggedOut (fst (getEmployee b i (Rejected err)))
          \<and> snd (getEmployee b i (Rejected err)) = Rejected err
          \<and> loggedOut (fst (createEmployee b e (Rejected err)))
          \<and> snd (createEmployee b e (Rejected err)) = Rejected err
          \<and> loggedOut (fst (updateEmployee b i e (Rejected err)))
          \<and> snd (updateEmployee b i e (Rejected err)) = Rejected err
          \<and> loggedOut (fst (deleteEmployee b i (Rejected err)))
          \<and> snd (deleteEmployee b i (Rejected err)) = Rejected err
          \<and> loggedOut (fst (getTasks b (Rejected err)))
          \<and> snd (getTasks b (Rejected err)) = Rejected err
          \<and> loggedOut (fst (getTask b i (Rejected err)))
          \<and> snd (getTask b i (Rejected err)) = Rejected err
          \<and> loggedOut (fst (createTask b t (Rejected err)))
          \<and> snd (createTask b t (Rejected err)) = Rejected err
          \<and> loggedOut (fst (updateTask b i u (Rejected err)))
          \<and> snd (updateTask b i u (Rejected err)) = Rejected err
          \<and> loggedOut (fst (deleteTask b i (Rejected err)))
          \<and> snd (deleteTask b i (Rejected err)) = Rejected err"
  using assms
  by (simp add: Let_def apiClient_def responseRejected_def route_def
      getEmployees_def getEmployee_def createEmployee_def updateEmployee_def deleteEmployee_def
      getTasks_def getTask_def createTask_def updateTask_def deleteTask_def)

theorem unauthorized_clears_token_and_redirects_witness:
  "response_status unauthorized = Some 401
   \<and> localStorage browser0 (js ''token'') = Some (js ''t0'')
   \<and> localStorage (fst (deleteTask browser0 3 (Rejected unauthorized))) (js ''token'') = None
   \<and> location_href (fst (deleteTask browser0 3 (Rejected unauthorized))) = js ''/''
   \<and> length (sent (fst (deleteTask browser0 3 (Rejected unauthorized)))) = 1
   \<and> snd (deleteTask browser0 3 (Rejected unauthorized)) = Rejected unauthorized"
proof -
  have h: "response_status unauthorized = Some 401"
    by (simp add: unauthorized_def)
  show ?thesis
    using unauthorized_clears_token_and_redirects [OF h, of browser0 3] h
    by (simp add: Let_def browser0_def)
qed

section \<open>List reconciliation\<close>

text \<open>
  Claim C3. After a successful update (employee edit, task edit or task status transition)
  the list has as many entries as before, and every entry whose id is the id of the entity
  that was updated is the entity the server returned.
\<close>

theorem update_keeps_length_and_replaces_match:
  "(snd (EmployeePage_validateForm (EmployeePage.formData es))
      \<and> editingEmployee es = Some editingE \<longrightarrow>
      (let employees' = EmployeePage.employees
                          (snd (EmployeePage_handleSubmit b es (Resolved updatedE)))
       in length employees' = length (EmployeePage.employees es)
        \<and> (\<forall>i<length (EmployeePage.employees es).
              emp_id (EmployeePage.employees es ! i) = emp_id editingE
              \<longrightarrow> employees' ! i = updatedE)))
   \<and> (snd (TaskPage_validateForm (formData ts))
      \<and> TaskFormData.due_date (formData ts) \<noteq> Some InvalidDate
      \<and> editingTask ts = Some editingT \<longrightarrow>
      (let tasks' = tasks (snd (TaskPage_handleSubmit b ts (Resolved updatedT)))
       in length tasks' = length (tasks ts)
        \<and> (\<forall>i<length (tasks ts).
              task_id (tasks ts ! i) = task_id editingT \<longrightarrow> tasks' ! i = updatedT)))
   \<and> (let tasks' = tasks (snd (handleStatusUpdate b ts task newStatus (Resolved updatedT)))
      in length tasks' = length (tasks ts)
       \<and> (\<forall>i<length (tasks ts).
             task_id (tasks ts ! i) = task_id task \<longrightarrow> tasks' ! i = updatedT))"
proof (intro conjI impI)
  assume "snd (EmployeePage_validateForm (EmployeePage.formData es))
            \<and> editingEmployee es = Some editingE"
  then show "let employees' = EmployeePage.employees
                          (snd (EmployeePage_handleSubmit b es (Resolved updatedE)))
       in length employees' = length (EmployeePage.employees es)
        \<and> (\<forall>i<length (EmployeePage.employees es).
              emp_id (EmployeePage.employees es ! i) = emp_id editingE
              \<longrightarrow> employees' ! i = updatedE)"
    by (simp add: employee_update_list)
next
  assume "snd (TaskPage_validateForm (formData ts))
      \<and> TaskFormData.due_date (formData ts) \<noteq> Some InvalidDate
      \<and> editingTask ts = Some editingT"
  then show "let tasks' = tasks (snd (TaskPage_handleSubmit b ts (Resolved updatedT)))
       in length tasks' = length (tasks ts)
        \<and> (\<forall>i<length (tasks ts).
              task_id (tasks ts ! i) = task_id editingT \<longrightarrow> tasks' ! i = updatedT)"
    by (simp add: task_update_list)
next
  show "let tasks' = tasks (snd (handleStatusUpdate b ts task newStatus (Resolved updatedT)))
      in length tasks' = length (tasks ts)
       \<and> (\<forall>i<length (tasks ts).
             task_id (tasks ts ! i) = task_id task \<longrightarrow> tasks' ! i = updatedT)"
    by (simp add: status_update_list)
qed

theorem update_keeps_length_and_replaces_match_witness:
  "snd (EmployeePage_validateForm
          (EmployeePage.formData (employeePage0\<lparr>editingEmployee := Some bob\<rparr>)))
   \<and> editingEmployee (employeePage0\<lparr>editingEmployee := Some bob\<rparr>) = Some bob
   \<and> EmployeePage.employees (employeePage0\<lparr>editingEmployee := Some bob\<rparr>) = [alice, bob]
   \<and> emp_id ([alice, bob] ! Suc 0) = emp_id bob
   \<and> length (EmployeePage.employees
         (snd (EmployeePage_handleSubmit browser0 (employeePage0\<lparr>editingEmployee := Some bob\<rparr>)
                 (Resolved rob)))) = 2
   \<and> EmployeePage.employees
         (snd (EmployeePage_handleSubmit browser0 (employeePage0\<lparr>editingEmployee := Some bob\<rparr>)
                 (Resolved rob))) ! Suc 0 = rob
   \<and> snd (TaskPage_validateForm (formData (taskPage0\<lparr>editingTask := Some report\<rparr>)))
   \<and> TaskFormData.due_date (formData (taskPage0\<lparr>editingTask := Some report\<rparr>))
       \<noteq> Some InvalidDate
   \<and> editingTask (taskPage0\<lparr>editingTask := Some report\<rparr>) = Some report
   \<and> tasks (taskPage0\<lparr>editingTask := Some report\<rparr>) = [report, review, release]
   \<and> task_id ([report, review, release] ! 0) = task_id report
   \<and> tasks (snd (TaskPage_handleSubmit browser0 (taskPage0\<lparr>editingTask := Some report\<rparr>)
                (Resolved started))) ! 0 = started
   \<and> tasks (snd (handleStatusUpdate browser0 (taskPage0\<lparr>editingTask := Some report\<rparr>)
                report Ongoing (Resolved started))) ! 0 = started"
proof -
  let ?es = "employeePage0\<lparr>editingEmployee := Some bob\<rparr>"
  let ?ts = "taskPage0\<lparr>editingTask := Some report\<rparr>"
  have e: "EmployeePage.employees ?es = [alice, bob]" "editingEmployee ?es = Some bob"
    by (simp_all add: employeePage0_def)
  have t: "tasks ?ts = [report, review, release]" "editingTask ?ts = Some report"
    by (simp_all add: taskPage0_def)
  show ?thesis
    using update_keeps_length_and_replaces_match
      [where es = ?es and editingE = bob and b = browser0 and updatedE = rob and ts = ?ts
         and editingT = report and updatedT = started and task = report
         and newStatus = Ongoing]
      employeePage0_editing [of "Some bob"] taskPage0_editing [of "Some report"]
    by (simp add: e t Let_def)
qed

text \<open>
  Claim C4. After a successful create (employee or task) the list is the old list with the
  entity the server returned appended at its end: one entry more, the last entry is the new
  entity, and the entries that were there are unchanged.
\<close>

theorem create_appends_returned_entity:
  "(snd (EmployeePage_validateForm (EmployeePage.formData es))
      \<and> editingEmployee es = None \<longrightarrow>
      (let employees' = EmployeePage.employees
                          (snd (EmployeePage_handleSubmit b es (Resolved newEmployee)))
       in employees' = EmployeePage.employees es @ [newEmployee]
        \<and> length employees' = Suc (length (EmployeePage.employees es))
        \<and> last employees' = newEmployee
        \<and> take (length (EmployeePage.employees es)) employees' = EmployeePage.employees es))
   \<and> (snd (TaskPage_validateForm (formData ts))
      \<and> TaskFormData.due_date (formData ts) \<noteq> Some InvalidDate
      \<and> editingTask ts = None \<longrightarrow>
      (let tasks' = tasks (snd (TaskPage_handleSubmit b ts (Resolved newTask)))
       in tasks' = tasks ts @ [newTask]
        \<and> length tasks' = Suc (length (tasks ts))
        \<and> last tasks' = newTask
        \<and> take (length (tasks ts)) tasks' = tasks ts))"
  by (simp add: employee_create_list task_create_list)

theorem create_appends_returned_entity_witness:
  "snd (EmployeePage_validateForm (EmployeePage.formData employeePage0))
   \<and> editingEmployee employeePage0 = None
   \<and> EmployeePage.employees employeePage0 = [alice, bob]
   \<and> EmployeePage.employees (snd (EmployeePage_handleSubmit browser0 employeePage0 (Resolved carol)))
       = [alice, bob, carol]
   \<and> snd (TaskPage_validateForm (formData taskPage0))
   \<and> TaskFormData.due_date (formData taskPage0) \<noteq> Some InvalidDate
   \<and> editingTask taskPage0 = None
   \<and> tasks taskPage0 = [report, review, release]
   \<and> tasks (snd (TaskPage_handleSubmit browser0 taskPage0 (Resolved started)))
       = [report, review, release, started]"
proof -
  have e: "EmployeePage.employees employeePage0 = [alice, bob]"
    "editingEmployee employeePage0 = None"
    "snd (EmployeePage_validateForm (EmployeePage.formData employeePage0))"
    using employeeForm_valid by (simp_all add: employeePage0_def EmployeePage_initial_def)
  have t: "tasks taskPage0 = [report, review, release]" "editingTask taskPage0 = None"
    "snd (TaskPage_validateForm (formData taskPage0))"
    "TaskFormData.due_date (formData taskPage0) \<noteq> Some InvalidDate"
    using taskForm_valid by (simp_all add: taskPage0_def TaskPage_initial_def taskForm_def)
  show ?thesis
    using create_appends_returned_entity
      [where es = employeePage0 and b = browser0 and newEmployee = carol and ts = taskPage0
         and newTask = started]
    by (simp add: e t Let_def)
qed

text \<open>
  Claim C5. A confirmed delete whose request succeeds leaves no entry with the id of the
  deleted entity in the list; one whose request fails leaves the list as it was and sets a
  non-empty page error, which is shown as the banner.
\<close>

theorem delete_removes_on_success_keeps_on_failure:
  "(case handleDeleteEmployee b es employee True (Resolved ()) of
      (b', es') \<Rightarrow>
        EmployeePage.employees es' =
          filter (\<lambda>emp. emp_id emp \<noteq> emp_id employee) (EmployeePage.employees es)
        \<and> (\<forall>emp\<in>set (EmployeePage.employees es'). emp_id emp \<noteq> emp_id employee))
   \<and> (case handleDeleteEmployee b es employee True (Rejected err) of
      (b', es') \<Rightarrow>
        EmployeePage.employees es' = EmployeePage.employees es
        \<and> EmployeePage.error es' =
            orElse (response_detail err) (js ''Failed to delete employee'')
        \<and> truthy (EmployeePage.error es')
        \<and> errorAlert (EmployeePage.error es') = Some (EmployeePage.error es'))
   \<and> (case handleDeleteTask b ts task True (Resolved ()) of
      (b', ts') \<Rightarrow>
        tasks ts' = filter (\<lambda>t. task_id t \<noteq> task_id task) (tasks ts)
        \<and> (\<forall>t\<in>set (tasks ts'). task_id t \<noteq> task_id task))
   \<and> (case handleDeleteTask b ts task True (Rejected err) of
      (b', ts') \<Rightarrow>
        tasks ts' = tasks ts
        \<and> error ts' = orElse (response_detail err) (js ''Failed to delete task'')
        \<and> truthy (error ts')
        \<and> errorAlert (error ts') = Some (error ts'))"
  by (simp add: handleDeleteEmployee_def deleteEmployee_def handleDeleteTask_def deleteTask_def
      apiClient_def Let_def truthy_orElse truthy_js errorAlert_truthy)

theorem delete_removes_on_success_keeps_on_failure_witness:
  "alice \<in> set (EmployeePage.employees employeePage0)
   \<and> EmployeePage.employees
        (snd (handleDeleteEmployee browser0 employeePage0 alice True (Resolved ()))) = [bob]
   \<and> bob \<in> set (EmployeePage.employees
        (snd (handleDeleteEmployee browser0 employeePage0 alice True (Resolved ()))))
   \<and> emp_id bob \<noteq> emp_id alice
   \<and> EmployeePage.employees
        (snd (handleDeleteEmployee browser0 employeePage0 alice True (Rejected unauthorized)))
       = [alice, bob]
   \<and> EmployeePage.error
        (snd (handleDeleteEmployee browser0 employeePage0 alice True (Rejected unauthorized)))
       = js ''Failed to delete employee''
   \<and> review \<in> set (tasks taskPage0)
   \<and> tasks (snd (handleDeleteTask browser0 taskPage0 review True (Resolved ())))
       = [report, release]
   \<and> report \<in> set (tasks (snd (handleDeleteTask browser0 taskPage0 review True (Resolved ()))))
   \<and> task_id report \<noteq> task_id review
   \<and> tasks (snd (handleDeleteTask browser0 taskPage0 review True (Rejected unauthorized)))
       = [report, review, release]
   \<and> error (snd (handleDeleteTask browser0 taskPage0 review True (Rejected unauthorized)))
       = js ''Failed to delete task''"
proof -
  have e: "EmployeePage.employees employeePage0 = [alice, bob]"
    by (simp add: employeePage0_def)
  have t: "tasks taskPage0 = [report, review, release]"
    by (simp add: taskPage0_def)
  have ids: "emp_id alice = 1" "emp_id bob = 2" "task_id report = 1" "task_id review = 2"
    "task_id release = 3"
    by (simp_all add: alice_def bob_def report_def review_def release_def)
  have d: "response_detail unauthorized = None"
    by (simp add: unauthorized_def)
  show ?thesis
    using delete_removes_on_success_keeps_on_failure
      [where b = browser0 and es = employeePage0 and employee = alice and err = unauthorized
         and ts = taskPage0 and task = review]
    by (simp add: e t ids d orElse_def case_prod_beta)
qed

text \<open>
  Claim C6. A status transition that the server rejects changes nothing of the page state
  but the error: the task list, and so every displayed status, is as before, and the error
  is non-empty and shown as the banner.
\<close>

theorem rejected_transition_keeps_status:
  "(case handleStatusUpdate b st task newStatus (Rejected err) of
      (b', st') \<Rightarrow>
        st' = st\<lparr>error := orElse (response_detail err) (js ''Failed to update task status'')\<rparr>
        \<and> tasks st' = tasks st
        \<and> map task_status (tasks st') = map task_status (tasks st)
        \<and> truthy (error st')
        \<and> TaskPage_render st' =
            (case TaskPage_render st of
               Spinner \<Rightarrow> Spinner
             | Page banner shown \<Rightarrow> Page (Some (error st')) shown))"
  by (simp add: handleStatusUpdate_def updateTask_def apiClient_def Let_def
      truthy_orElse truthy_js errorAlert_truthy TaskPage_render_def)

section \<open>Login\<close>

text \<open>
  Claim C7. A login whose token request is rejected leaves the session state as it was
  (so \<open>isAuthenticated\<close> keeps its value), writes nothing to local storage and hands the
  error to the caller; a login whose token request resolves sets \<open>isAuthenticated\<close> and
  stores the access token returned.
\<close>

theorem login_failure_and_success:
  "(case AuthProvider_login b st user pass (Rejected err) of
      (b', st', result) \<Rightarrow>
        st' = st \<and> isAuthenticated st' = isAuthenticated st
        \<and> localStorage b' = localStorage b \<and> result = Rejected err)
   \<and> (case AuthProvider_login b st user pass (Resolved response) of
      (b', st', result) \<Rightarrow>
        isAuthenticated st' \<and> localStorage b' (js ''token'') = Some (access_token response)
        \<and> result = Resolved ())"
  by (simp add: AuthProvider_login_def apiService_login_def Let_def)

section \<open>Email validation of the employee form\<close>

text \<open>
  Claim C8. The email field of the employee form passes validation exactly when the text
  contains a run of non-space characters, an at sign, a run of non-space characters, a dot
  and a run of non-space characters, in this order and adjacent. The text \<open>not-an-email\<close>
  fails with the inline message \<open>Invalid email format\<close> and the submission stops before any
  request; the text \<open>a@b.co\<close> passes, and the form is then valid when the other three fields
  are not blank.
\<close>

theorem email_validation:
  "(EmployeeFormErrors.email (fst (EmployeePage_validateForm fd)) = None \<longleftrightarrow>
      (\<exists>u x y z w. CreateEmployee.email fd = u @ x @ [0x40] @ y @ [0x2E] @ z @ w
         \<and> x \<noteq> [] \<and> y \<noteq> [] \<and> z \<noteq> []
         \<and> list_all (\<lambda>c. \<not> isWhiteSpace c) (x @ y @ z)))
   \<and> EmployeeFormErrors.email
        (fst (EmployeePage_validateForm (fd\<lparr>CreateEmployee.email := js ''not-an-email''\<rparr>)))
       = Some (js ''Invalid email format'')
   \<and> \<not> snd (EmployeePage_validateForm (fd\<lparr>CreateEmployee.email := js ''not-an-email''\<rparr>))
   \<and> EmployeePage_handleSubmit b
        (st\<lparr>EmployeePage.formData := fd\<lparr>CreateEmployee.email := js ''not-an-email''\<rparr>\<rparr>) reply
       = (b, st\<lparr>EmployeePage.formData := fd\<lparr>CreateEmployee.email := js ''not-an-email''\<rparr>,
                 EmployeePage.formErrors :=
                   fst (EmployeePage_validateForm
                          (fd\<lparr>CreateEmployee.email := js ''not-an-email''\<rparr>))\<rparr>)
   \<and> EmployeeFormErrors.email
        (fst (EmployeePage_validateForm (fd\<lparr>CreateEmployee.email := js ''a@b.co''\<rparr>))) = None
   \<and> (snd (EmployeePage_validateForm (fd\<lparr>CreateEmployee.email := js ''a@b.co''\<rparr>)) \<longleftrightarrow>
        truthy (trim (CreateEmployee.name fd)) \<and> truthy (trim (CreateEmployee.department fd))
        \<and> truthy (trim (CreateEmployee.position fd)))"
proof (intro conjI)
  show "EmployeeFormErrors.email (fst (EmployeePage_validateForm fd)) = None \<longleftrightarrow>
      (\<exists>u x y z w. CreateEmployee.email fd = u @ x @ [0x40] @ y @ [0x2E] @ z @ w
         \<and> x \<noteq> [] \<and> y \<noteq> [] \<and> z \<noteq> []
         \<and> list_all (\<lambda>c. \<not> isWhiteSpace c) (x @ y @ z))"
    (is "?ok \<longleftrightarrow> ?shape")
  proof
    assume ?ok
    then have "test emailRegex (CreateEmployee.email fd)"
      by (simp add: email_error_None)
    then show ?shape by (rule test_emailRegex_elim)
  next
    assume ?shape
    then obtain u x y z w
      where s: "CreateEmployee.email fd = u @ x @ [0x40] @ y @ [0x2E] @ z @ w"
        and ne: "x \<noteq> []" "y \<noteq> []" "z \<noteq> []"
        and cls: "list_all (\<lambda>c. \<not> isWhiteSpace c) (x @ y @ z)"
      by (elim exE conjE)
    have "test emailRegex (CreateEmployee.email fd)"
      unfolding s by (rule test_emailRegex_intro [OF ne cls])
    moreover have "truthy (trim (CreateEmployee.email fd))"
      by (rule shape_not_blank [OF s])
    ultimately show ?ok by (simp add: email_error_None)
  qed
next
  show "EmployeeFormErrors.email
        (fst (EmployeePage_validateForm (fd\<lparr>CreateEmployee.email := js ''not-an-email''\<rparr>)))
       = Some (js ''Invalid email format'')"
    by (rule email_error_Invalid) (simp_all add: not_an_email_rejected)
next
  show no: "\<not> snd (EmployeePage_validateForm (fd\<lparr>CreateEmployee.email := js ''not-an-email''\<rparr>))"
    by (simp add: EmployeePage_validateForm_valid not_an_email_rejected)
  show "EmployeePage_handleSubmit b
        (st\<lparr>EmployeePage.formData := fd\<lparr>CreateEmployee.email := js ''not-an-email''\<rparr>\<rparr>) reply
       = (b, st\<lparr>EmployeePage.formData := fd\<lparr>CreateEmployee.email := js ''not-an-email''\<rparr>,
                 EmployeePage.formErrors :=
                   fst (EmployeePage_validateForm
                          (fd\<lparr>CreateEmployee.email := js ''not-an-email''\<rparr>))\<rparr>)"
    using no by (simp add: EmployeePage_handleSubmit_def Let_def case_prod_beta)
next
  show "EmployeeFormErrors.email
        (fst (EmployeePage_validateForm (fd\<lparr>CreateEmployee.email := js ''a@b.co''\<rparr>))) = None"
    by (simp add: email_error_None a_b_co_accepted)
next
  show "snd (EmployeePage_validateForm (fd\<lparr>CreateEmployee.email := js ''a@b.co''\<rparr>)) \<longleftrightarrow>
        truthy (trim (CreateEmployee.name fd)) \<and> truthy (trim (CreateEmployee.department fd))
        \<and> truthy (trim (CreateEmployee.position fd))"
    by (simp add: EmployeePage_validateForm_valid a_b_co_accepted)
qed

section \<open>Login and the interceptors\<close>

text \<open>
  Claim C9. The login request goes out through plain axios, without the interceptors of the
  API client: it carries no Authorization header, and a rejected login (with status 401 or
  any other) neither touches local storage nor changes the location. Local storage differs
  after a login only if the login resolved.
\<close>

theorem login_bypasses_interceptor:
  "apiService_login b credentials (Rejected err) =
     (b\<lparr>sent := sent b @ [\<lparr>httpMethod = POST, url = TokenUrl, authorization = None,
                           body = CredentialsForm credentials\<rparr>]\<rparr>,
      Rejected err)
   \<and> localStorage (fst (apiService_login b credentials (Rejected err))) = localStorage b
   \<and> location_href (fst (apiService_login b credentials (Rejected err))) = location_href b
   \<and> ((\<exists>response. reply = Resolved response)
        \<or> localStorage (fst (apiService_login b credentials reply)) = localStorage b)"
  by (cases reply) (simp_all add: apiService_login_def Let_def)


section \<open>The id that update reconciliation matches\<close>

text \<open>
  Claim C10. Update reconciliation compares every entry's id with the id of the entity
  being edited, taken before the request: each entry with that id becomes the entity the
  server returned, whatever id the returned entity has, every other entry stays, the length
  is kept, and when no entry has that id the list is unchanged.
\<close>

theorem update_matches_target_id:
  "(snd (EmployeePage_validateForm (EmployeePage.formData es))
      \<and> editingEmployee es = Some editingE \<longrightarrow>
      (let employees' = EmployeePage.employees
                          (snd (EmployeePage_handleSubmit b es (Resolved updatedE)))
       in length employees' = length (EmployeePage.employees es)
        \<and> (\<forall>i<length (EmployeePage.employees es).
              employees' ! i =
                (if emp_id (EmployeePage.employees es ! i) = emp_id editingE then updatedE
                 else EmployeePage.employees es ! i))
        \<and> ((\<forall>emp\<in>set (EmployeePage.employees es). emp_id emp \<noteq> emp_id editingE)
              \<longrightarrow> employees' = EmployeePage.employees es)))
   \<and> (snd (TaskPage_validateForm (formData ts))
      \<and> TaskFormData.due_date (formData ts) \<noteq> Some InvalidDate
      \<and> editingTask ts = Some editingT \<longrightarrow>
      (let tasks' = tasks (snd (TaskPage_handleSubmit b ts (Resolved updatedT)))
       in length tasks' = length (tasks ts)
        \<and> (\<forall>i<length (tasks ts).
              tasks' ! i =
                (if task_id (tasks ts ! i) = task_id editingT then updatedT else tasks ts ! i))
        \<and> ((\<forall>t\<in>set (tasks ts). task_id t \<noteq> task_id editingT) \<longrightarrow> tasks' = tasks ts)))
   \<and> (let tasks' = tasks (snd (handleStatusUpdate b ts task newStatus (Resolved updatedT)))
      in length tasks' = length (tasks ts)
       \<and> (\<forall>i<length (tasks ts).
             tasks' ! i =
               (if task_id (tasks ts ! i) = task_id task then updatedT else tasks ts ! i))
       \<and> ((\<forall>t\<in>set (tasks ts). task_id t \<noteq> task_id task) \<longrightarrow> tasks' = tasks ts))"
  by (simp add: employee_update_list task_update_list status_update_list replace_absent)

theorem update_matches_target_id_witness:
  "snd (EmployeePage_validateForm
          (EmployeePage.formData (employeePage0\<lparr>editingEmployee := Some alice\<rparr>)))
   \<and> editingEmployee (employeePage0\<lparr>editingEmployee := Some alice\<rparr>) = Some alice
   \<and> EmployeePage.employees (employeePage0\<lparr>editingEmployee := Some alice\<rparr>) = [alice, bob]
   \<and> emp_id carol \<noteq> emp_id alice
   \<and> EmployeePage.employees
        (snd (EmployeePage_handleSubmit browser0 (employeePage0\<lparr>editingEmployee := Some alice\<rparr>)
                (Resolved carol))) ! 0 = carol
   \<and> EmployeePage.employees
        (snd (EmployeePage_handleSubmit browser0 (employeePage0\<lparr>editingEmployee := Some alice\<rparr>)
                (Resolved carol))) ! Suc 0 = bob
   \<and> emp_id alice \<noteq> emp_id carol \<and> emp_id bob \<noteq> emp_id carol
   \<and> EmployeePage.employees
        (snd (EmployeePage_handleSubmit browser0 (employeePage0\<lparr>editingEmployee := Some carol\<rparr>)
                (Resolved rob))) = [alice, bob]
   \<and> snd (TaskPage_validateForm (formData (taskPage0\<lparr>editingTask := Some report\<rparr>)))
   \<and> TaskFormData.due_date (formData (taskPage0\<lparr>editingTask := Some report\<rparr>))
       \<noteq> Some InvalidDate
   \<and> editingTask (taskPage0\<lparr>editingTask := Some report\<rparr>) = Some report
   \<and> tasks (taskPage0\<lparr>editingTask := Some report\<rparr>) = [report, review, release]
   \<and> task_id started \<noteq> task_id report
   \<and> tasks (snd (TaskPage_handleSubmit browser0 (taskPage0\<lparr>editingTask := Some report\<rparr>)
                (Resolved started))) ! 0 = started
   \<and> tasks (snd (handleStatusUpdate browser0 (taskPage0\<lparr>editingTask := Some report\<rparr>)
                report Ongoing (Resolved started))) ! 0 = started
   \<and> tasks (snd (handleStatusUpdate browser0 (taskPage0\<lparr>editingTask := Some report\<rparr>)
                report Ongoing (Resolved started))) ! Suc 0 = review
   \<and> task_id report \<noteq> task_id started \<and> task_id review \<noteq> task_id started
   \<and> task_id release \<noteq> task_id started
   \<and> tasks (snd (TaskPage_handleSubmit browser0 (taskPage0\<lparr>editingTask := Some started\<rparr>)
                (Resolved review))) = [report, review, release]
   \<and> tasks (snd (handleStatusUpdate browser0 (taskPage0\<lparr>editingTask := Some started\<rparr>)
                started Completed (Resolved review))) = [report, review, release]"
proof -
  have e: "EmployeePage.employees (employeePage0\<lparr>editingEmployee := x\<rparr>) = [alice, bob]"
    "editingEmployee (employeePage0\<lparr>editingEmployee := x\<rparr>) = x" for x
    by (simp_all add: employeePage0_def)
  have t: "tasks (taskPage0\<lparr>editingTask := y\<rparr>) = [report, review, release]"
    "editingTask (taskPage0\<lparr>editingTask := y\<rparr>) = y" for y
    by (simp_all add: taskPage0_def)
  have ids: "emp_id alice = 1" "emp_id bob = 2" "emp_id carol = 7" "task_id report = 1"
    "task_id review = 2" "task_id release = 3" "task_id started = 9"
    by (simp_all add: alice_def bob_def carol_def report_def review_def release_def started_def)
  show ?thesis
    using update_matches_target_id
      [where es = "employeePage0\<lparr>editingEmployee := Some alice\<rparr>" and editingE = alice
         and b = browser0 and updatedE = carol
         and ts = "taskPage0\<lparr>editingTask := Some report\<rparr>" and editingT = report
         and updatedT = started and task = report and newStatus = Ongoing]
      update_matches_target_id
      [where es = "employeePage0\<lparr>editingEmployee := Some carol\<rparr>" and editingE = carol
         and b = browser0 and updatedE = rob
         and ts = "taskPage0\<lparr>editingTask := Some started\<rparr>" and editingT = started
         and updatedT = review and task = started and newStatus = Completed]
      employeePage0_editing [of "Some alice"] employeePage0_editing [of "Some carol"]
      taskPage0_editing [of "Some report"] taskPage0_editing [of "Some started"]
    by (simp add: e t ids Let_def)
qed

end
